theory Spec2Isabelle
  imports Complex_Main "HOL-Library.Word"
begin

section \<open>Motion tracking: the per-frame pipeline of motionTracking.py\<close>

text \<open>
  The theory embeds the four functions of \<^verbatim>\<open>src/motionTracking.py\<close> that carry the
  pipeline: \<^verbatim>\<open>imageProcessing\<close>, \<^verbatim>\<open>clusterParams\<close>, \<^verbatim>\<open>contourClustering\<close> and
  \<^verbatim>\<open>centroidTracking\<close>.

  Conventions of the embedding.
  \<^item> A raised Python exception is a value of \<open>py_error\<close>; a function that can raise
    returns a sum with \<open>Inl\<close> for the exception.
  \<^item> A cluster point or a center is a row of a numpy \<^verbatim>\<open>float32\<close> array, as
    \<^verbatim>\<open>cv2.kmeans\<close> returns it: a pair of finite values, each the real number the float
    stands for. Rows that hold an infinity or a NaN are outside the model.
  \<^item> Arithmetic on these values is floating-point arithmetic: it rounds, and it
    overflows to infinity. The four operations of line 168 are parameters of
    centroidTracking (\<open>float_ops\<close>); \<open>numpy_ops\<close> writes out what NumPy computes.
  \<^item> The OpenCV primitives are not code of this program. \<^verbatim>\<open>cv2.kmeans\<close>, the colour
    conversion, the blur, the threshold, the morphology and the contour finder are
    parameters of the model; \<^verbatim>\<open>cv2.absdiff\<close> on 8-bit single-channel images is
    written out.
\<close>

datatype py_error = IndexError | CvError

type_synonym point = "real \<times> real"

subsection \<open>Floating-point values and rounding\<close>

text \<open>
  The result of a floating-point operation on finite operands, in the places where line
  168 uses one: a finite value, or an infinity (\<open>None\<close>). A difference can be infinite
  with either sign; squared, it is plus infinity, and so are the sum and its root. No NaN
  can arise there from finite coordinates. \<^verbatim>\<open>float('inf')\<close> of line 165 is \<open>None\<close> too.
\<close>

type_synonym fval = "real option"

text \<open>
  \<^verbatim>\<open>a < b\<close> on distances, where an infinity is plus infinity: an infinite distance
  is below nothing, and every finite one is below an infinite one.
\<close>

definition float_less :: "fval \<Rightarrow> fval \<Rightarrow> bool" where
  "float_less a b =
     (case a of None \<Rightarrow> False | Some x \<Rightarrow> (case b of None \<Rightarrow> True | Some y \<Rightarrow> x < y))"

text \<open>
  A binary format: the number of significand bits, and the least and the greatest
  exponent of a normal value.
\<close>

record float_format =
  precision :: nat
  emin :: int
  emax :: int

definition binary32 :: float_format where
  "binary32 = \<lparr>precision = 24, emin = - 126, emax = 127\<rparr>"

definition binary64 :: float_format where
  "binary64 = \<lparr>precision = 53, emin = - 1022, emax = 1023\<rparr>"

definition pow2 :: "int \<Rightarrow> real" where
  "pow2 e = (if 0 \<le> e then 2 ^ nat e else 1 / 2 ^ nat (- e))"

text \<open>
  The exponent of the last significand bit of the format at \<open>x\<close>: the spacing of the
  format's values around \<open>x\<close> is \<open>pow2\<close> of it. Below the normal range the spacing stays
  that of the least normal exponent.
\<close>

definition quantum_exponent :: "float_format \<Rightarrow> real \<Rightarrow> int" where
  "quantum_exponent f x = max \<lfloor>log 2 \<bar>x\<bar>\<rfloor> (emin f) - (int (precision f) - 1)"

definition round_half_even :: "real \<Rightarrow> int" where
  "round_half_even x =
     (if x - of_int \<lfloor>x\<rfloor> < 1 / 2 then \<lfloor>x\<rfloor>
      else if 1 / 2 < x - of_int \<lfloor>x\<rfloor> then \<lfloor>x\<rfloor> + 1
      else if even \<lfloor>x\<rfloor> then \<lfloor>x\<rfloor> else \<lfloor>x\<rfloor> + 1)"

text \<open>Rounding to the nearest value of the format, a tie to the even significand.\<close>

definition round_to :: "float_format \<Rightarrow> real \<Rightarrow> real" where
  "round_to f x =
     (if x = 0 then 0
      else of_int (round_half_even (x / pow2 (quantum_exponent f x))) *
           pow2 (quantum_exponent f x))"

text \<open>The floating-point result for the exact result \<open>x\<close>: rounded, and infinite beyond the range.\<close>

definition fl :: "float_format \<Rightarrow> real \<Rightarrow> fval" where
  "fl f x = (let r = round_to f x in if \<bar>r\<bar> < pow2 (emax f + 1) then Some r else None)"

text \<open>
  The operations of line 168, in the order in which the line applies them: the
  difference of two coordinates, \<^verbatim>\<open>** 2\<close>, \<^verbatim>\<open>+\<close> and \<^verbatim>\<open>math.sqrt\<close>.
\<close>

record float_ops =
  fsub :: "real \<Rightarrow> real \<Rightarrow> fval"
  fsquare :: "fval \<Rightarrow> fval"
  fadd :: "fval \<Rightarrow> fval \<Rightarrow> fval"
  fsqrt :: "fval \<Rightarrow> fval"

text \<open>
  What NumPy computes on \<^verbatim>\<open>float32\<close> rows. The difference of two \<^verbatim>\<open>float32\<close> values is a
  \<^verbatim>\<open>float32\<close>. The square and the sum are computed in the format \<open>fq\<close>: binary32 under
  NumPy 2, binary64 under the scalar promotion of the releases before it. \<^verbatim>\<open>math.sqrt\<close>
  works in binary64. Each operation rounds the exact result; an infinite operand gives
  an infinite result.
\<close>

definition numpy_ops :: "float_format \<Rightarrow> float_ops" where
  "numpy_ops fq =
     \<lparr>fsub = (\<lambda>a b. fl binary32 (a - b)),
      fsquare = (\<lambda>x. case x of None \<Rightarrow> None | Some a \<Rightarrow> fl fq (a * a)),
      fadd = (\<lambda>x y. case x of None \<Rightarrow> None
                     | Some a \<Rightarrow> (case y of None \<Rightarrow> None | Some b \<Rightarrow> fl fq (a + b))),
      fsqrt = (\<lambda>x. case x of None \<Rightarrow> None | Some a \<Rightarrow> fl binary64 (sqrt a))\<rparr>"

subsection \<open>centroidTracking (lines 153 to 179)\<close>

text \<open>
  The names of the function's frame: its four parameters and the locals of lines 161 to
  166. Each statement of the body is an update of this record.
\<close>

record tracking_vars =
  clusterA :: "point list"
  clusterB :: "point list"
  center :: "point list"
  previousCenter :: "point list"
  comparisonCenterCoordinates :: "point list"
  minDistance :: fval
  distanceListCenter :: "fval list"
  minCoordinatesCenter :: point

text \<open>
  One pass of the loop of lines 167 to 172, for the candidate \<open>i\<close>: append the distance
  from \<^verbatim>\<open>previousCenter[0]\<close> to \<open>i\<close> as line 168 computes it, and when that last entry
  is strictly below \<^verbatim>\<open>minDistance\<close>, record it and the candidate's coordinates.
\<close>

definition tracking_step :: "float_ops \<Rightarrow> tracking_vars \<Rightarrow> point \<Rightarrow> tracking_vars" where
  "tracking_step fp s i =
     (let s1 = s\<lparr>distanceListCenter := distanceListCenter s @
                 [fsqrt fp (fadd fp
                    (fsquare fp (fsub fp (fst (previousCenter s ! 0)) (fst i)))
                    (fsquare fp (fsub fp (snd (previousCenter s ! 0)) (snd i))))]\<rparr>
      in if float_less (last (distanceListCenter s1)) (minDistance s1)
         then s1\<lparr>minDistance := last (distanceListCenter s1),
                 minCoordinatesCenter := i\<rparr>
         else s1)"

text \<open>
  The body. Line 162 reads \<^verbatim>\<open>center[0]\<close>, \<^verbatim>\<open>center[1]\<close> and \<^verbatim>\<open>previousCenter[1]\<close>:
  with fewer than two entries in either list Python raises IndexError there, before any
  other statement has had an effect, and the frame is returned as it was entered. Past
  that guard \<^verbatim>\<open>previousCenter[0]\<close> of line 168 is in range. The test of line 174
  compares coordinates: \<^verbatim>\<open>(minCoordinatesCenter == comparisonCenterCoordinates[1]).all()\<close>
  holds when both coordinates are equal.
\<close>

definition centroidTracking_run ::
  "float_ops \<Rightarrow> point list \<Rightarrow> point list \<Rightarrow> point list \<Rightarrow> point list
     \<Rightarrow> py_error option \<times> tracking_vars" where
  "centroidTracking_run fp cA cB c pc =
     (let s0 = \<lparr>clusterA = cA, clusterB = cB, center = c, previousCenter = pc,
                comparisonCenterCoordinates = [], minDistance = None,
                distanceListCenter = [], minCoordinatesCenter = (0, 0)\<rparr>
      in if length c < 2 \<or> length pc < 2 then (Some IndexError, s0)
         else
           let s1 = s0\<lparr>comparisonCenterCoordinates := comparisonCenterCoordinates s0 @
                       [center s0 ! 0, center s0 ! 1, previousCenter s0 ! 1]\<rparr>;
               s2 = foldl (tracking_step fp) s1 (comparisonCenterCoordinates s1);
               s3 = (if minCoordinatesCenter s2 = comparisonCenterCoordinates s2 ! 1
                     then s2\<lparr>clusterA := clusterB s2, clusterB := clusterA s2,
                             center := [center s2 ! 1, center s2 ! 0]\<rparr>
                     else s2)
           in (None, s3))"

text \<open>What the caller receives: the exception, or the triple of line 179.\<close>

definition centroidTracking ::
  "float_ops \<Rightarrow> point list \<Rightarrow> point list \<Rightarrow> point list \<Rightarrow> point list
     \<Rightarrow> py_error + (point list \<times> point list \<times> point list)" where
  "centroidTracking fp cA cB c pc =
     (case centroidTracking_run fp cA cB c pc of
        (Some e, s) \<Rightarrow> Inl e
      | (None, s) \<Rightarrow> Inr (clusterA s, clusterB s, center s))"

text \<open>
  The vocabulary of the specification: the Euclidean distance, and the argmin of a list
  of distances taken in order, that is the first index at which the least distance
  stands.
\<close>

definition euclid :: "point \<Rightarrow> point \<Rightarrow> real" where
  "euclid p q = sqrt ((fst p - fst q)\<^sup>2 + (snd p - snd q)\<^sup>2)"

definition argmin_first :: "real list \<Rightarrow> nat" where
  "argmin_first ds = length (takeWhile (\<lambda>d. d \<noteq> Min (set ds)) ds)"

definition nearest_candidate :: "point \<Rightarrow> point list \<Rightarrow> nat" where
  "nearest_candidate p cands = argmin_first (map (euclid p) cands)"

text \<open>
  The same on the distances as the program computes them. \<open>computed_distance\<close> is the
  value of line 168 for a candidate. \<open>nearest_computed\<close> is the argmin of a list of
  computed distances, taken in order: the first index whose distance has none of the list
  strictly below it. When every distance is infinite none is below the infinity the
  search of line 165 starts from, and there is no nearest candidate.
\<close>

definition computed_distance :: "float_ops \<Rightarrow> point \<Rightarrow> point \<Rightarrow> fval" where
  "computed_distance fp p i =
     fsqrt fp (fadd fp (fsquare fp (fsub fp (fst p) (fst i)))
                       (fsquare fp (fsub fp (snd p) (snd i))))"

definition nearest_computed :: "fval list \<Rightarrow> nat option" where
  "nearest_computed ds =
     (if list_all (\<lambda>d. d = None) ds then None
      else Some (length (takeWhile (\<lambda>d. list_ex (\<lambda>d'. float_less d' d) ds) ds)))"

text \<open>
  The coordinates the loop of lines 167 to 172 ends with for three candidates at the
  computed distances \<open>d0\<close>, \<open>d1\<close>, \<open>d2\<close>, written without the loop: a candidate is taken
  when its distance is strictly below the least so far, which is infinite at the start.
\<close>

definition selected_coordinates ::
  "fval \<Rightarrow> fval \<Rightarrow> fval \<Rightarrow> point \<Rightarrow> point \<Rightarrow> point \<Rightarrow> point" where
  "selected_coordinates d0 d1 d2 c0 c1 p1 =
     (let m0 = (if float_less d0 None then d0 else None);
          s0 = (if float_less d0 None then c0 else (0, 0));
          m1 = (if float_less d1 m0 then d1 else m0);
          s1 = (if float_less d1 m0 then c1 else s0)
      in if float_less d2 m1 then p1 else s1)"

subsection \<open>Configuration (lines 24 to 41)\<close>

definition contourDetectionPoints :: nat where
  "contourDetectionPoints = 650"

definition numRandomContours :: nat where
  "numRandomContours = 500"

definition gaussianBlurKSize :: "nat \<times> nat" where
  "gaussianBlurKSize = (31, 31)"

definition thresholdValue :: nat where
  "thresholdValue = 5"

definition thresholdMaxValue :: nat where
  "thresholdMaxValue = 255"

definition erodingIter :: nat where
  "erodingIter = 4"

definition dilatingIter :: nat where
  "dilatingIter = 8"

definition clusteringIter :: nat where
  "clusteringIter = 10"

definition clusteringEpsilon :: real where
  "clusteringEpsilon = 1"

subsection \<open>The OpenCV primitives\<close>

text \<open>
  Images: a raw frame holds three 8-bit channels per pixel, every later frame one. A
  contour of \<^verbatim>\<open>cv2.findContours\<close> is an array of shape (n, 1, 2); \<^verbatim>\<open>i[j][0]\<close> is its
  j-th point, so a contour is modelled as the list of its points.
\<close>

type_synonym raw_frame = "(8 word \<times> 8 word \<times> 8 word) list list"
type_synonym gray_frame = "8 word list list"
type_synonym ipoint = "int \<times> int"
type_synonym contour = "ipoint list"
type_synonym hierarchy = "(int \<times> int \<times> int \<times> int) list option"
type_synonym term_criteria = "int \<times> nat \<times> real"

text \<open>The arguments of one call of \<^verbatim>\<open>cv2.kmeans\<close>, in the order of line 143.\<close>

record kmeans_args =
  km_data :: "point list"
  km_K :: nat
  km_bestLabels :: "int list option"
  km_criteria :: term_criteria
  km_attempts :: nat
  km_flags :: int

text \<open>
  The primitives the program calls, as parameters. \<open>kmeans\<close> returns the compactness, one
  label per data point and the centers, or fails; which labels and centers it returns,
  seeded at random as it is, is left open.
\<close>

record cv2 =
  cvtColor_BGR2GRAY :: "raw_frame \<Rightarrow> gray_frame"
  GaussianBlur :: "gray_frame \<Rightarrow> nat \<times> nat \<Rightarrow> real \<Rightarrow> gray_frame"
  threshold_BINARY :: "gray_frame \<Rightarrow> nat \<Rightarrow> nat \<Rightarrow> gray_frame"
  erode :: "gray_frame \<Rightarrow> 8 word list list \<Rightarrow> nat \<Rightarrow> gray_frame"
  dilate :: "gray_frame \<Rightarrow> 8 word list list \<Rightarrow> nat \<Rightarrow> gray_frame"
  findContours_EXTERNAL_SIMPLE :: "gray_frame \<Rightarrow> contour list \<times> hierarchy"
  kmeans :: "kmeans_args \<Rightarrow> py_error + (real \<times> int list \<times> point list)"

definition TERM_CRITERIA_MAX_ITER :: int where
  "TERM_CRITERIA_MAX_ITER = 1"

definition TERM_CRITERIA_EPS :: int where
  "TERM_CRITERIA_EPS = 2"

definition KMEANS_RANDOM_CENTERS :: int where
  "KMEANS_RANDOM_CENTERS = 0"

text \<open>
  \<^verbatim>\<open>cv2.absdiff\<close> on two 8-bit single-channel images: the absolute difference of each
  pair of pixels, which fits in 8 bits. OpenCV refuses images of different sizes.
\<close>

definition absdiff_pixel :: "8 word \<Rightarrow> 8 word \<Rightarrow> 8 word" where
  "absdiff_pixel a b = (if a \<le> b then b - a else a - b)"

definition absdiff :: "gray_frame \<Rightarrow> gray_frame \<Rightarrow> py_error + gray_frame" where
  "absdiff src1 src2 =
     (if map length src1 = map length src2
      then Inr (map2 (map2 absdiff_pixel) src1 src2)
      else Inl CvError)"

subsection \<open>imageProcessing (lines 80 to 110)\<close>

text \<open>
  The camera is the sequence of outcomes of its coming reads: \<open>Some\<close> frame for a
  successful grab, \<open>None\<close> for a failed one. A feed that has ended fails every read.
\<close>

type_synonym camera = "raw_frame option list"

definition camera_read :: "camera \<Rightarrow> raw_frame option \<times> camera" where
  "camera_read cam = (case cam of [] \<Rightarrow> (None, []) | r # rest \<Rightarrow> (r, rest))"

text \<open>The list of line 109.\<close>

record frames =
  frame0 :: raw_frame
  frame1 :: gray_frame
  frame2 :: gray_frame
  frame3 :: gray_frame
  frame4 :: gray_frame
  frame5 :: gray_frame

text \<open>
  The function returns the tuple (master, contours, hierarchy, frames, status), with
  Python's \<^verbatim>\<open>None\<close> as \<open>None\<close>, and leaves the camera advanced by one read.
\<close>

type_synonym processing_result =
  "gray_frame option \<times> contour list option \<times> hierarchy \<times> frames option \<times> string"

definition imageProcessing ::
  "cv2 \<Rightarrow> camera \<Rightarrow> gray_frame option \<Rightarrow> (py_error + processing_result) \<times> camera" where
  "imageProcessing cv cam master =
     (case camera_read cam of
        (None, cam') \<Rightarrow> (Inr (None, None, None, None, ''break''), cam')
      | (Some f0, cam') \<Rightarrow>
          (let f1 = cvtColor_BGR2GRAY cv f0;
               f2 = GaussianBlur cv f1 gaussianBlurKSize 0
           in case master of
                None \<Rightarrow> (Inr (Some f2, None, None, None, ''continue''), cam')
              | Some m \<Rightarrow>
                  (case absdiff m f2 of
                     Inl e \<Rightarrow> (Inl e, cam')
                   | Inr f3 \<Rightarrow>
                       (let f4 = threshold_BINARY cv f3 thresholdValue thresholdMaxValue;
                            kernel = replicate 2 (replicate 2 1);
                            f5a = erode cv f4 kernel erodingIter;
                            f5 = dilate cv f5a kernel dilatingIter;
                            (contours, hier) = findContours_EXTERNAL_SIMPLE cv f5
                        in (Inr (Some f2, Some contours, hier,
                                 Some \<lparr>frame0 = f0, frame1 = f1, frame2 = f2,
                                       frame3 = f3, frame4 = f4, frame5 = f5\<rparr>,
                                 ''None''), cam')))))"

subsection \<open>clusterParams (lines 114 to 125)\<close>

definition clusterParams ::
  "bool \<Rightarrow> term_criteria \<times> nat \<times> point list \<times> point list \<times> point list \<times> unit list" where
  "clusterParams multiTouch =
     (let crit = (TERM_CRITERIA_EPS + TERM_CRITERIA_MAX_ITER, clusteringIter, clusteringEpsilon);
          clusterNumber = 1;
          clusterNumber = (if multiTouch then 2 else clusterNumber)
      in (crit, clusterNumber, [(0, 0)], [(0, 0)], [(0, 0), (0, 0)], []))"

subsection \<open>contourClustering (lines 129 to 149)\<close>

text \<open>The two nested loops of lines 137 to 140, appending point after point.\<close>

definition contour_points :: "contour list \<Rightarrow> ipoint list" where
  "contour_points contours =
     foldl (\<lambda>acc i. foldl (\<lambda>acc j. acc @ [i ! j]) acc [0..<length i]) [] contours"

text \<open>
  \<^verbatim>\<open>np.float32\<close> of the list of points: each coordinate rounded to binary32. The
  coordinates of a contour are 32-bit integers, which binary32 holds without overflow.
\<close>

definition np_float32 :: "ipoint list \<Rightarrow> point list" where
  "np_float32 ps =
     map (\<lambda>(x, y). (round_to binary32 (real_of_int x), round_to binary32 (real_of_int y))) ps"

text \<open>
  \<^verbatim>\<open>contourCoordinates[label.ravel() == k]\<close>: the rows whose label is \<open>k\<close>. numpy raises
  IndexError when the mask and the array differ in length.
\<close>

definition rows_labelled :: "point list \<Rightarrow> int list \<Rightarrow> int \<Rightarrow> py_error + point list" where
  "rows_labelled rows label k =
     (if length label = length rows
      then Inr (map fst (filter (\<lambda>(p, l). l = k) (zip rows label)))
      else Inl IndexError)"

text \<open>
  The result of the function is paired with the calls of \<^verbatim>\<open>cv2.kmeans\<close> it has made, in
  order, each with its arguments: the call is the function's one effect outside itself.
  The result proper is the tuple (clusterA, clusterB, center, ret) of line 149.
\<close>

definition contourClustering ::
  "cv2 \<Rightarrow> contour list \<Rightarrow> term_criteria \<Rightarrow> nat \<Rightarrow> bool
     \<Rightarrow> kmeans_args list \<times> (py_error + (point list \<times> point list \<times> point list \<times> real))" where
  "contourClustering cv contours crit clusterNumber multiTouch =
     (let contourCoordinates = np_float32 (contour_points contours);
          call = \<lparr>km_data = contourCoordinates, km_K = clusterNumber, km_bestLabels = None,
                  km_criteria = crit, km_attempts = 10, km_flags = KMEANS_RANDOM_CENTERS\<rparr>
      in ([call],
          case kmeans cv call of
            Inl e \<Rightarrow> Inl e
          | Inr (ret, label, cen) \<Rightarrow>
              (case rows_labelled contourCoordinates label 0 of
                 Inl e \<Rightarrow> Inl e
               | Inr cA \<Rightarrow>
                   if multiTouch
                   then (case rows_labelled contourCoordinates label 1 of
                           Inl e \<Rightarrow> Inl e
                         | Inr cB \<Rightarrow> Inr (cA, cB, cen, ret))
                   else Inr (cA, [], cen, ret))))"

text \<open>
  A stand-in for the library, to run the model on concrete frames: the gray value is the
  green channel, blur and morphology change nothing, one contour is reported, and k-means
  fails on fewer data points than clusters and otherwise gives every data point the
  label 0 and puts every center at the origin.
\<close>

definition cv2_stub :: cv2 where
  "cv2_stub =
     \<lparr>cvtColor_BGR2GRAY = (\<lambda>f. map (map (\<lambda>(b, g, r). g)) f),
      GaussianBlur = (\<lambda>f ksize sigma. f),
      threshold_BINARY = (\<lambda>f t mx. map (map (\<lambda>p. if t < unat p then of_nat mx else 0)) f),
      erode = (\<lambda>f k n. f),
      dilate = (\<lambda>f k n. f),
      findContours_EXTERNAL_SIMPLE = (\<lambda>f. ([[(0, 0)]], Some [(-1, -1, -1, -1)])),
      kmeans = (\<lambda>a. if length (km_data a) < km_K a then Inl CvError
                     else Inr (0, map (\<lambda>p. 0) (km_data a), replicate (km_K a) (0, 0)))\<rparr>"

section \<open>Properties of the rounding\<close>

lemma pow2_powr: "pow2 e = 2 powr real_of_int e"
  by (simp add: pow2_def powr_int)

lemma pow2_pos: "0 < pow2 e"
  by (simp add: pow2_powr)

lemma pow2_add: "pow2 (a + b) = pow2 a * pow2 b"
  by (simp add: pow2_powr powr_add)

lemma floor_log2:
  assumes "pow2 e \<le> \<bar>x\<bar>" and "\<bar>x\<bar> < pow2 (e + 1)"
  shows "\<lfloor>log 2 \<bar>x\<bar>\<rfloor> = e"
proof -
  from assms(1) pow2_pos [of e] have "0 < \<bar>x\<bar>" by linarith
  then show ?thesis
    using assms by (simp add: floor_log_eq_powr_iff pow2_powr)
qed

lemma round_half_even_int: "round_half_even (of_int j) = j"
  by (simp add: round_half_even_def)

lemma round_half_even_below:
  assumes "of_int k \<le> y" and "y < of_int k + 1 / 2"
  shows "round_half_even y = k"
proof -
  from assms have "\<lfloor>y\<rfloor> = k"
    by (intro floor_unique) simp_all
  with assms show ?thesis
    by (simp add: round_half_even_def)
qed

text \<open>A value \<open>m * 2\<^sup>k\<close> whose significand \<open>m\<close> fits the precision is a value of the format.\<close>

lemma round_to_exact:
  assumes x: "x = of_int m * pow2 k"
    and m: "\<bar>m\<bar> < 2 ^ precision f"
    and k: "emin f - (int (precision f) - 1) \<le> k"
  shows "round_to f x = x"
proof (cases "x = 0")
  case True
  then show ?thesis by (simp add: round_to_def)
next
  case False
  define p where "p = int (precision f)"
  define q where "q = quantum_exponent f x"
  have ax: "\<bar>x\<bar> = of_int \<bar>m\<bar> * pow2 k"
    using pow2_pos [of k] by (simp add: x abs_mult)
  have "of_int \<bar>m\<bar> < (2::real) ^ precision f"
    using m by (metis of_int_less_iff of_int_numeral of_int_power)
  then have "of_int \<bar>m\<bar> < pow2 p"
    by (simp add: pow2_def p_def)
  then have "\<bar>x\<bar> < pow2 p * pow2 k"
    using pow2_pos [of k] by (simp add: ax)
  then have lt: "\<bar>x\<bar> < pow2 (p + k)"
    by (simp add: pow2_add)
  have pos: "0 < \<bar>x\<bar>" using False by simp
  have "log 2 \<bar>x\<bar> < real_of_int (p + k)"
    using lt pos by (simp add: pow2_powr log_less_iff)
  then have "\<lfloor>log 2 \<bar>x\<bar>\<rfloor> < p + k"
    by (simp add: floor_less_iff)
  then have "q \<le> k"
    using k by (simp add: q_def quantum_exponent_def p_def)
  then obtain d where d: "k = q + int d"
    by (metis zle_iff_zadd)
  have pd: "pow2 (int d) = of_int (2 ^ d)"
    by (simp add: pow2_def)
  have xq: "x = of_int (m * 2 ^ d) * pow2 q"
    by (simp add: x d pow2_add pd)
  have "x / pow2 q = of_int (m * 2 ^ d)"
    using pow2_pos [of q] by (simp add: xq)
  then have "round_half_even (x / pow2 q) = m * 2 ^ d"
    by (simp only: round_half_even_int)
  then have "round_to f x = of_int (m * 2 ^ d) * pow2 q"
    using False by (simp add: round_to_def q_def)
  with xq show ?thesis by simp
qed

text \<open>Rounding down: a value less than half a spacing above a value of the format.\<close>

lemma round_to_below:
  assumes e: "pow2 e \<le> \<bar>x\<bar>" "\<bar>x\<bar> < pow2 (e + 1)" "emin f \<le> e"
    and q: "q = e - (int (precision f) - 1)"
    and k: "of_int k * pow2 q \<le> x" "x < (of_int k + 1 / 2) * pow2 q"
  shows "round_to f x = of_int k * pow2 q"
proof -
  from e(1) pow2_pos [of e] have nz: "x \<noteq> 0" by auto
  have qe: "quantum_exponent f x = q"
    using floor_log2 [OF e(1,2)] e(3) by (simp add: quantum_exponent_def q)
  have "of_int k \<le> x / pow2 q" "x / pow2 q < of_int k + 1 / 2"
    using k pow2_pos [of q] by (simp_all add: field_simps)
  then have "round_half_even (x / pow2 q) = k"
    by (rule round_half_even_below)
  with nz qe show ?thesis
    by (simp add: round_to_def)
qed

lemma fl_exact:
  assumes "x = of_int m * pow2 k" and "\<bar>m\<bar> < 2 ^ precision f"
    and "emin f - (int (precision f) - 1) \<le> k"
  shows "fl f x = (if \<bar>x\<bar> < pow2 (emax f + 1) then Some x else None)"
  using round_to_exact [OF assms] by (simp add: fl_def)

text \<open>Integers below \<open>2\<^sup>2\<^sup>4\<close> are binary32 values, integers below \<open>2\<^sup>5\<^sup>3\<close> binary64 values.\<close>

lemma round_to_binary32_int:
  assumes "\<bar>n\<bar> < 16777216"
  shows "round_to binary32 (of_int n) = of_int n"
  by (rule round_to_exact [where m = n and k = 0]) (use assms in \<open>simp_all add: binary32_def pow2_def\<close>)

lemma round_to_binary32_numeral:
  "numeral k < (16777216::int) \<Longrightarrow> round_to binary32 (numeral k) = numeral k"
  "round_to binary32 0 = 0"
  using round_to_binary32_int [of "numeral k"] by (simp_all add: round_to_def)

lemma fl_binary32_int:
  assumes "\<bar>n\<bar> < 16777216"
  shows "fl binary32 (of_int n) = Some (of_int n)"
proof -
  have "\<bar>real_of_int n\<bar> < 16777216"
    using assms by (metis of_int_abs of_int_less_iff of_int_numeral)
  then have "\<bar>real_of_int n\<bar> < pow2 (emax binary32 + 1)"
    by (simp add: binary32_def pow2_def)
  then show ?thesis
    using round_to_binary32_int [OF assms] by (simp add: fl_def)
qed

lemma fl_binary64_int:
  assumes "\<bar>n\<bar> < 9007199254740992"
  shows "fl binary64 (of_int n) = Some (of_int n)"
proof -
  have "\<bar>real_of_int n\<bar> < 9007199254740992"
    using assms by (metis of_int_abs of_int_less_iff of_int_numeral)
  then have "\<bar>real_of_int n\<bar> < pow2 (emax binary64 + 1)"
    by (simp add: binary64_def pow2_def)
  moreover have "round_to binary64 (of_int n) = of_int n"
    by (rule round_to_exact [where m = n and k = 0])
      (use assms in \<open>simp_all add: binary64_def pow2_def\<close>)
  ultimately show ?thesis
    by (simp add: fl_def)
qed

lemma fl_binary32_numeral:
  "numeral k < (16777216::int) \<Longrightarrow> fl binary32 (numeral k) = Some (numeral k)"
  "numeral k < (16777216::int) \<Longrightarrow> fl binary32 (- numeral k) = Some (- numeral k)"
  "fl binary32 0 = Some 0"
  "fl binary32 1 = Some 1"
  using fl_binary32_int [of "numeral k"] fl_binary32_int [of "- numeral k"]
    fl_binary32_int [of 0] fl_binary32_int [of 1]
  by simp_all

lemma fl_binary64_numeral:
  "numeral k < (9007199254740992::int) \<Longrightarrow> fl binary64 (numeral k) = Some (numeral k)"
  "fl binary64 0 = Some 0"
  "fl binary64 1 = Some 1"
  using fl_binary64_int [of "numeral k"] fl_binary64_int [of 0] fl_binary64_int [of 1]
  by simp_all

text \<open>Small powers of two are values of both formats.\<close>

lemma fl_tiny:
  "fl binary32 (- (1 / 2 ^ 20)) = Some (- (1 / 2 ^ 20))"
  "fl binary32 (1 / 2 ^ 40) = Some (1 / 2 ^ 40)"
  "fl binary64 (1 / 2 ^ 40) = Some (1 / 2 ^ 40)"
proof -
  have "fl binary32 (- (1 / 2 ^ 20)) =
      (if \<bar>- (1 / 2 ^ 20) :: real\<bar> < pow2 (emax binary32 + 1) then Some (- (1 / 2 ^ 20)) else None)"
    by (rule fl_exact [where m = "- 1" and k = "- 20"]) (simp_all add: binary32_def pow2_def)
  then show "fl binary32 (- (1 / 2 ^ 20)) = Some (- (1 / 2 ^ 20))"
    by (simp add: binary32_def pow2_def)
  have "fl binary32 (1 / 2 ^ 40) =
      (if \<bar>1 / 2 ^ 40 :: real\<bar> < pow2 (emax binary32 + 1) then Some (1 / 2 ^ 40) else None)"
    by (rule fl_exact [where m = 1 and k = "- 40"]) (simp_all add: binary32_def pow2_def)
  then show "fl binary32 (1 / 2 ^ 40) = Some (1 / 2 ^ 40)"
    by (simp add: binary32_def pow2_def)
  have "fl binary64 (1 / 2 ^ 40) =
      (if \<bar>1 / 2 ^ 40 :: real\<bar> < pow2 (emax binary64 + 1) then Some (1 / 2 ^ 40) else None)"
    by (rule fl_exact [where m = 1 and k = "- 40"]) (simp_all add: binary64_def pow2_def)
  then show "fl binary64 (1 / 2 ^ 40) = Some (1 / 2 ^ 40)"
    by (simp add: binary64_def pow2_def)
qed

text \<open>
  Next to 2250000 the values of binary32 are 1/4 apart and those of binary64
  \<open>2\<^sup>-\<^sup>3\<^sup>1\<close> apart: adding \<open>2\<^sup>-\<^sup>4\<^sup>0\<close> changes nothing in either format.
\<close>

lemma fl_absorbs:
  "fl binary32 (2250000 + 1 / 2 ^ 40) = Some 2250000"
  "fl binary64 (2250000 + 1 / 2 ^ 40) = Some 2250000"
proof -
  have "round_to binary32 (2250000 + 1 / 2 ^ 40) = of_int 9000000 * pow2 (- 2)"
    by (rule round_to_below [where e = 21]) (simp_all add: binary32_def pow2_def)
  then show "fl binary32 (2250000 + 1 / 2 ^ 40) = Some 2250000"
    by (simp add: fl_def binary32_def pow2_def)
  have "round_to binary64 (2250000 + 1 / 2 ^ 40) = of_int 4831838208000000 * pow2 (- 31)"
    by (rule round_to_below [where e = 21]) (simp_all add: binary64_def pow2_def)
  then show "fl binary64 (2250000 + 1 / 2 ^ 40) = Some 2250000"
    by (simp add: fl_def binary64_def pow2_def)
qed

text \<open>The square of \<open>2\<^sup>1\<^sup>0\<^sup>0\<close> is beyond binary32.\<close>

lemma fl_binary32_large:
  "fl binary32 (2 ^ 100) = Some (2 ^ 100)"
  "fl binary32 (2 ^ 200) = None"
proof -
  have "fl binary32 (2 ^ 100) =
      (if \<bar>2 ^ 100 :: real\<bar> < pow2 (emax binary32 + 1) then Some (2 ^ 100) else None)"
    by (rule fl_exact [where m = 1 and k = 100]) (simp_all add: binary32_def pow2_def)
  then show "fl binary32 (2 ^ 100) = Some (2 ^ 100)"
    by (simp add: binary32_def pow2_def)
  have "fl binary32 (2 ^ 200) =
      (if \<bar>2 ^ 200 :: real\<bar> < pow2 (emax binary32 + 1) then Some (2 ^ 200) else None)"
    by (rule fl_exact [where m = 1 and k = 200]) (simp_all add: binary32_def pow2_def)
  then show "fl binary32 (2 ^ 200) = None"
    by (simp add: binary32_def pow2_def)
qed

lemma sqrt_values:
  "sqrt 25 = 5" "sqrt 100 = 10" "sqrt 169 = 13" "sqrt 2250000 = 1500" "sqrt 6250000 = 2500"
  by (rule real_sqrt_unique; simp)+

text \<open>Distances as NumPy computes them.\<close>

lemma numpy_distances:
  "computed_distance (numpy_ops binary32) (0, 0) (3, 4) = Some 5"
  "computed_distance (numpy_ops binary32) (0, 0) (6, 8) = Some 10"
  "computed_distance (numpy_ops binary32) (0, 0) (5, 12) = Some 13"
  by (simp_all add: computed_distance_def numpy_ops_def fl_binary32_numeral fl_binary64_numeral
        sqrt_values)

lemma numpy_distances_tie:
  assumes "fq = binary32 \<or> fq = binary64"
  shows "computed_distance (numpy_ops fq) (0, 0) (1500, 1 / 2 ^ 20) = Some 1500"
    and "computed_distance (numpy_ops fq) (0, 0) (1500, 0) = Some 1500"
    and "computed_distance (numpy_ops fq) (0, 0) (2000, 1500) = Some 2500"
  using assms fl_tiny fl_absorbs
  by (auto simp add: computed_distance_def numpy_ops_def fl_binary32_numeral fl_binary64_numeral
        sqrt_values)

lemma numpy_distances_overflow:
  "computed_distance (numpy_ops binary32) (2 ^ 100, 0) (0, 1) = None"
  "computed_distance (numpy_ops binary32) (2 ^ 100, 0) (0, 2) = None"
proof -
  have sq: "fsquare (numpy_ops binary32) (fsub (numpy_ops binary32) (2 ^ 100) 0) = None"
    using fl_binary32_large by (simp add: numpy_ops_def flip: power_add power2_eq_square power_mult)
  show "computed_distance (numpy_ops binary32) (2 ^ 100, 0) (0, 1) = None"
    unfolding computed_distance_def fst_conv snd_conv sq by (simp add: numpy_ops_def)
  show "computed_distance (numpy_ops binary32) (2 ^ 100, 0) (0, 2) = None"
    unfolding computed_distance_def fst_conv snd_conv sq by (simp add: numpy_ops_def)
qed

section \<open>Properties of centroidTracking\<close>

subsection \<open>The loop and its result\<close>

lemma tracking_step_keeps:
  "clusterA (tracking_step fp s i) = clusterA s"
  "clusterB (tracking_step fp s i) = clusterB s"
  "center (tracking_step fp s i) = center s"
  "previousCenter (tracking_step fp s i) = previousCenter s"
  "comparisonCenterCoordinates (tracking_step fp s i) = comparisonCenterCoordinates s"
  by (simp_all add: tracking_step_def Let_def)

lemma tracking_step_min:
  "minDistance (tracking_step fp s i) =
     (if float_less (computed_distance fp (previousCenter s ! 0) i) (minDistance s)
      then computed_distance fp (previousCenter s ! 0) i else minDistance s)"
  "minCoordinatesCenter (tracking_step fp s i) =
     (if float_less (computed_distance fp (previousCenter s ! 0) i) (minDistance s)
      then i else minCoordinatesCenter s)"
  by (simp_all add: tracking_step_def Let_def computed_distance_def)

lemma tracking_loop_keeps_previousCenter:
  "previousCenter (foldl (tracking_step fp) s xs) = previousCenter s"
  by (induction xs arbitrary: s) (simp_all add: tracking_step_keeps)

text \<open>
  With two entries in each list the function returns, and what it returns is decided by
  the coordinates the loop selected.
\<close>

lemma centroidTracking_cons:
  "centroidTracking fp cA cB (c0 # c1 # cs) (p0 # p1 # ps) =
     Inr (if selected_coordinates (computed_distance fp p0 c0) (computed_distance fp p0 c1)
               (computed_distance fp p0 p1) c0 c1 p1 = c1
          then (cB, cA, [c1, c0]) else (cA, cB, c0 # c1 # cs))"
  by (auto simp add: centroidTracking_def centroidTracking_run_def Let_def
        tracking_step_keeps tracking_step_min selected_coordinates_def)

lemma float_less_simps:
  "float_less None b = False"
  "float_less (Some x) None = True"
  "float_less (Some x) (Some y) = (x < y)"
  by (simp_all add: float_less_def)

lemma float_less_irrefl: "\<not> float_less d d"
  by (cases d) (simp_all add: float_less_simps)

lemma float_less_asym: "float_less a b \<Longrightarrow> \<not> float_less b a"
  by (cases a; cases b) (simp_all add: float_less_simps)

text \<open>A candidate strictly nearer than the two others is the one selected.\<close>

lemma selected_second:
  assumes "float_less d1 d0" and "float_less d1 d2"
  shows "selected_coordinates d0 d1 d2 c0 c1 p1 = c1"
  using assms
  by (cases d0; cases d1; cases d2)
    (simp_all add: selected_coordinates_def float_less_simps Let_def)

text \<open>The argmin of three computed distances.\<close>

lemma nearest_computed3:
  "nearest_computed [d0, d1, d2] =
     (if d0 = None \<and> d1 = None \<and> d2 = None then None
      else if float_less d2 d0 \<and> float_less d2 d1 then Some 2
      else if float_less d1 d0 then Some 1 else Some 0)"
  by (cases d0; cases d1; cases d2) (auto simp add: nearest_computed_def float_less_simps)

text \<open>
  The loop selects the coordinates of the nearest candidate by the computed distances,
  when there is one, and otherwise keeps the \<^verbatim>\<open>[0, 0]\<close> of line 166.
\<close>

lemma selected_is_nearest:
  assumes "nearest_computed [d0, d1, d2] = Some n"
  shows "selected_coordinates d0 d1 d2 c0 c1 p1 = [c0, c1, p1] ! n"
  using assms
  by (cases d0; cases d1; cases d2)
    (auto simp add: nearest_computed3 selected_coordinates_def float_less_simps Let_def
      split: if_splits)

lemma selected_without_nearest:
  assumes "nearest_computed [d0, d1, d2] = None"
  shows "selected_coordinates d0 d1 d2 c0 c1 p1 = (0, 0)"
  using assms
  by (cases d0; cases d1; cases d2)
    (auto simp add: nearest_computed3 selected_coordinates_def float_less_simps Let_def
      split: if_splits)

lemma argmin_first3:
  "argmin_first [d0, d1, d2] = (if d2 < min d0 d1 then 2 else if d1 < d0 then 1 else 0)"
  by (auto simp add: argmin_first_def min_def)

lemma two_entries:
  assumes "2 \<le> length xs"
  obtains x0 x1 rest where "xs = x0 # x1 # rest"
  using assms by (cases xs; cases "tl xs") auto

subsection \<open>Swap when the second center is strictly nearest\<close>

text \<open>
  Claim C1, as stated, fails: the distances that line 168 compares are floating-point
  values. With \<^verbatim>\<open>previousCenter[0]\<close> at the origin, \<^verbatim>\<open>center[0] = (1500, 2\<^sup>-\<^sup>2\<^sup>0)\<close> and
  \<^verbatim>\<open>center[1] = (1500, 0)\<close>, the Euclidean distance to \<^verbatim>\<open>center[1]\<close> is strictly the
  smallest of the three, but the sum \<open>2250000 + 2\<^sup>-\<^sup>4\<^sup>0\<close> rounds to 2250000 and both
  computed distances are 1500: nothing is strictly below the first, \<^verbatim>\<open>center[0]\<close> stays
  selected, and the clusters and centers are returned as given. This is so whether the
  squares and the sum are computed in binary32 or in binary64.
\<close>

theorem centroidTracking_rounding_counterexample:
  "euclid (0, 0) (1500, 0) < euclid (0, 0) (1500, 1 / 2 ^ 20) \<and>
   euclid (0, 0) (1500, 0) < euclid (0, 0) (2000, 1500) \<and>
   centroidTracking (numpy_ops binary32) [(1, 1)] [(2, 2)]
       [(1500, 1 / 2 ^ 20), (1500, 0)] [(0, 0), (2000, 1500)]
     = Inr ([(1, 1)], [(2, 2)], [(1500, 1 / 2 ^ 20), (1500, 0)]) \<and>
   centroidTracking (numpy_ops binary64) [(1, 1)] [(2, 2)]
       [(1500, 1 / 2 ^ 20), (1500, 0)] [(0, 0), (2000, 1500)]
     = Inr ([(1, 1)], [(2, 2)], [(1500, 1 / 2 ^ 20), (1500, 0)])"
proof -
  have "euclid (0, 0) (1500, 0) = 1500"
    by (simp add: euclid_def)
  moreover have "1500 < euclid (0, 0) (1500, 1 / 2 ^ 20)" "1500 < euclid (0, 0) (2000, 1500)"
    unfolding euclid_def by (rule real_less_rsqrt, simp)+
  ultimately have "euclid (0, 0) (1500, 0) < euclid (0, 0) (1500, 1 / 2 ^ 20)"
    "euclid (0, 0) (1500, 0) < euclid (0, 0) (2000, 1500)"
    by simp_all
  moreover have "centroidTracking (numpy_ops fq) [(1, 1)] [(2, 2)]
       [(1500, 1 / 2 ^ 20), (1500, 0)] [(0, 0), (2000, 1500)]
     = Inr ([(1, 1)], [(2, 2)], [(1500, 1 / 2 ^ 20), (1500, 0)])"
    if "fq = binary32 \<or> fq = binary64" for fq
    using numpy_distances_tie [OF that]
    by (simp add: centroidTracking_cons selected_coordinates_def float_less_simps)
  ultimately show ?thesis by simp
qed

text \<open>
  Claim C1, amended. Let \<open>cen\<close> be the current centers and \<open>prev\<close> the previous ones, two
  entries each at least. If the distance from \<^verbatim>\<open>previousCenter[0]\<close> to \<^verbatim>\<open>center[1]\<close>, as
  line 168 computes it, is strictly smaller than the computed distance to \<^verbatim>\<open>center[0]\<close>
  and strictly smaller than the computed distance to \<^verbatim>\<open>previousCenter[1]\<close>, then
  centroidTracking returns the two clusters exchanged and the center pair reversed,
  \<^verbatim>\<open>[center[1], center[0]]\<close>. This holds for every floating-point arithmetic.
\<close>

theorem centroidTracking_swaps_when_center1_nearest:
  assumes "2 \<le> length cen" and "2 \<le> length prev"
    and "float_less (computed_distance fp (prev ! 0) (cen ! 1))
                    (computed_distance fp (prev ! 0) (cen ! 0))"
    and "float_less (computed_distance fp (prev ! 0) (cen ! 1))
                    (computed_distance fp (prev ! 0) (prev ! 1))"
  shows "centroidTracking fp cA cB cen prev = Inr (cB, cA, [cen ! 1, cen ! 0])"
proof -
  from assms(1) obtain c0 c1 cs where c: "cen = c0 # c1 # cs" by (rule two_entries)
  from assms(2) obtain p0 p1 ps where p: "prev = p0 # p1 # ps" by (rule two_entries)
  from assms(3,4)
  have "selected_coordinates (computed_distance fp p0 c0) (computed_distance fp p0 c1)
          (computed_distance fp p0 p1) c0 c1 p1 = c1"
    by (intro selected_second) (simp_all add: c p)
  then show ?thesis
    by (simp add: c p centroidTracking_cons)
qed

theorem centroidTracking_swaps_when_center1_nearest_witness:
  "2 \<le> length [(6, 8), (3, 4) :: point] \<and> 2 \<le> length [(0, 0), (5, 12) :: point] \<and>
   float_less (computed_distance (numpy_ops binary32) (0, 0) (3, 4))
              (computed_distance (numpy_ops binary32) (0, 0) (6, 8)) \<and>
   float_less (computed_distance (numpy_ops binary32) (0, 0) (3, 4))
              (computed_distance (numpy_ops binary32) (0, 0) (5, 12)) \<and>
   centroidTracking (numpy_ops binary32) [(9, 9)] [(1, 0)] [(6, 8), (3, 4)] [(0, 0), (5, 12)]
     = Inr ([(1, 0)], [(9, 9)], [(3, 4), (6, 8)])"
proof -
  have near:
    "float_less (computed_distance (numpy_ops binary32) (0, 0) (3, 4))
                (computed_distance (numpy_ops binary32) (0, 0) (6, 8))"
    "float_less (computed_distance (numpy_ops binary32) (0, 0) (3, 4))
                (computed_distance (numpy_ops binary32) (0, 0) (5, 12))"
    by (simp_all add: numpy_distances float_less_simps)
  have "centroidTracking (numpy_ops binary32) [(9, 9)] [(1, 0)] [(6, 8), (3, 4)] [(0, 0), (5, 12)]
          = Inr ([(1, 0)], [(9, 9)], [[(6, 8), (3, 4)] ! 1, [(6, 8), (3, 4)] ! 0])"
    by (rule centroidTracking_swaps_when_center1_nearest) (simp_all add: near)
  with near show ?thesis by simp
qed

subsection \<open>No swap otherwise\<close>

text \<open>
  Claim C2, as stated, fails: with \<^verbatim>\<open>center[0]\<close> and \<^verbatim>\<open>center[1]\<close> at the same coordinates
  the argmin of the three distances is \<^verbatim>\<open>center[0]\<close>, the earlier of the two, and yet the
  test of line 174, which compares coordinates, holds, and the clusters are exchanged.
\<close>

theorem centroidTracking_no_swap_counterexample:
  "nearest_candidate (0, 0) [(3, 4), (3, 4), (5, 12)] = 0 \<and>
   centroidTracking (numpy_ops binary32) [(0, 0)] [(2, 2)] [(3, 4), (3, 4)] [(0, 0), (5, 12)]
     = Inr ([(2, 2)], [(0, 0)], [(3, 4), (3, 4)]) \<and>
   centroidTracking (numpy_ops binary32) [(0, 0)] [(2, 2)] [(3, 4), (3, 4)] [(0, 0), (5, 12)]
     \<noteq> Inr ([(0, 0)], [(2, 2)], [(3, 4), (3, 4)])"
  by (simp add: centroidTracking_cons selected_coordinates_def nearest_candidate_def
        argmin_first3 euclid_def numpy_distances float_less_simps)

text \<open>
  Claim C2, amended. Take the distances from \<^verbatim>\<open>previousCenter[0]\<close> to \<^verbatim>\<open>center[0]\<close>,
  \<^verbatim>\<open>center[1]\<close> and \<^verbatim>\<open>previousCenter[1]\<close> as line 168 computes them, not all of them
  infinite, and let \<open>n\<close> be their argmin in that order. If the nearest candidate is
  \<^verbatim>\<open>previousCenter[1]\<close>, or is \<^verbatim>\<open>center[0]\<close> and \<^verbatim>\<open>center[0]\<close> differs from \<^verbatim>\<open>center[1]\<close>
  in a coordinate, then centroidTracking performs no swap: it returns cluster A,
  cluster B and the centers exactly as given. This holds for every floating-point
  arithmetic.
\<close>

theorem centroidTracking_no_swap:
  assumes "2 \<le> length cen" and "2 \<le> length prev"
    and "nearest_computed (map (computed_distance fp (prev ! 0)) [cen ! 0, cen ! 1, prev ! 1])
           = Some n"
    and "n = 2 \<or> (n = 0 \<and> cen ! 0 \<noteq> cen ! 1)"
  shows "centroidTracking fp cA cB cen prev = Inr (cA, cB, cen)"
proof -
  from assms(1) obtain c0 c1 cs where c: "cen = c0 # c1 # cs" by (rule two_entries)
  from assms(2) obtain p0 p1 ps where p: "prev = p0 # p1 # ps" by (rule two_entries)
  let ?d0 = "computed_distance fp p0 c0" and ?d1 = "computed_distance fp p0 c1"
    and ?d2 = "computed_distance fp p0 p1"
  from assms(3) have n: "nearest_computed [?d0, ?d1, ?d2] = Some n"
    by (simp add: c p)
  then have sel: "selected_coordinates ?d0 ?d1 ?d2 c0 c1 p1 = [c0, c1, p1] ! n"
    by (rule selected_is_nearest)
  have "[c0, c1, p1] ! n \<noteq> c1"
  proof (cases "n = 2")
    case True
    with n have "float_less ?d2 ?d1"
      by (auto simp add: nearest_computed3 split: if_splits)
    then have "p1 \<noteq> c1"
      using float_less_irrefl by auto
    with True show ?thesis by simp
  next
    case False
    with assms(4) show ?thesis by (simp add: c)
  qed
  with sel show ?thesis
    by (simp add: c p centroidTracking_cons)
qed

theorem centroidTracking_no_swap_witness:
  "2 \<le> length [(3, 4), (6, 8) :: point] \<and> 2 \<le> length [(0, 0), (5, 12) :: point] \<and>
   nearest_computed (map (computed_distance (numpy_ops binary32) (0, 0))
                         [(3, 4), (6, 8), (5, 12)]) = Some 0 \<and>
   centroidTracking (numpy_ops binary32) [(1, 0)] [(9, 9)] [(3, 4), (6, 8)] [(0, 0), (5, 12)]
     = Inr ([(1, 0)], [(9, 9)], [(3, 4), (6, 8)]) \<and>
   nearest_computed (map (computed_distance (numpy_ops binary32) (0, 0))
                         [(6, 8), (5, 12), (3, 4)]) = Some 2 \<and>
   centroidTracking (numpy_ops binary32) [(6, 5)] [(9, 9)] [(6, 8), (5, 12)] [(0, 0), (3, 4)]
     = Inr ([(6, 5)], [(9, 9)], [(6, 8), (5, 12)])"
proof -
  have a: "nearest_computed (map (computed_distance (numpy_ops binary32) (0, 0))
                                 [(3, 4), (6, 8), (5, 12)]) = Some 0"
    by (simp add: nearest_computed3 numpy_distances float_less_simps)
  have b: "nearest_computed (map (computed_distance (numpy_ops binary32) (0, 0))
                                 [(6, 8), (5, 12), (3, 4)]) = Some 2"
    by (simp add: nearest_computed3 numpy_distances float_less_simps)
  have "centroidTracking (numpy_ops binary32) [(1, 0)] [(9, 9)] [(3, 4), (6, 8)] [(0, 0), (5, 12)]
     = Inr ([(1, 0)], [(9, 9)], [(3, 4), (6, 8)])"
    by (rule centroidTracking_no_swap [where n = 0]) (use a in simp_all)
  moreover
  have "centroidTracking (numpy_ops binary32) [(6, 5)] [(9, 9)] [(6, 8), (5, 12)] [(0, 0), (3, 4)]
     = Inr ([(6, 5)], [(9, 9)], [(6, 8), (5, 12)])"
    by (rule centroidTracking_no_swap [where n = 2]) (use b in simp_all)
  ultimately show ?thesis using a b by simp
qed

subsection \<open>The swap follows the coordinates\<close>

text \<open>
  Claim C9, as stated, fails where the arithmetic overflows. With \<^verbatim>\<open>previousCenter[0]\<close> at
  \<open>(2\<^sup>1\<^sup>0\<^sup>0, 0)\<close> and both centers at \<open>(0, 1)\<close>, the nearest candidate, ties going to the
  earlier one, is \<^verbatim>\<open>center[0]\<close>, which has the coordinates of \<^verbatim>\<open>center[1]\<close>. But the
  squares overflow binary32, the format of NumPy 2: every computed distance is infinite,
  none is below the \<^verbatim>\<open>float('inf')\<close> of line 165, \<^verbatim>\<open>minCoordinatesCenter\<close> keeps the
  \<^verbatim>\<open>[0, 0]\<close> of line 166, and there is no swap.
\<close>

theorem centroidTracking_overflow_counterexample:
  "nearest_candidate (2 ^ 100, 0) [(0, 1), (0, 1), (0, 2)] = 0 \<and>
   [(0, 1), (0, 1), (0, 2) :: point] ! 0 = [(0, 1), (0, 1)] ! 1 \<and>
   centroidTracking (numpy_ops binary32) [(1, 1)] [(2, 2)] [(0, 1), (0, 1)] [(2 ^ 100, 0), (0, 2)]
     = Inr ([(1, 1)], [(2, 2)], [(0, 1), (0, 1)])"
proof -
  have "nearest_candidate (2 ^ 100, 0) [(0, 1), (0, 1), (0, 2)] = 0"
    by (simp add: nearest_candidate_def argmin_first3 euclid_def)
  moreover
  have "centroidTracking (numpy_ops binary32) [(1, 1)] [(2, 2)] [(0, 1), (0, 1)]
          [(2 ^ 100, 0), (0, 2)] = Inr ([(1, 1)], [(2, 2)], [(0, 1), (0, 1)])"
    by (simp only: centroidTracking_cons numpy_distances_overflow)
      (simp add: selected_coordinates_def float_less_simps)
  ultimately show ?thesis by simp
qed

text \<open>
  Claim C9, amended. Take the three distances as line 168 computes them, not all of them
  infinite, and let \<open>n\<close> be their argmin in order, the nearest candidate. Whenever that
  candidate has the coordinates of \<^verbatim>\<open>center[1]\<close>, centroidTracking swaps: the candidate
  need not be \<^verbatim>\<open>center[1]\<close> itself. Among these inputs, if \<^verbatim>\<open>center[0]\<close> and \<^verbatim>\<open>center[1]\<close>
  have the same coordinates the argmin is \<^verbatim>\<open>center[0]\<close>, index 0, and the swap still takes
  place. The argmin is never \<^verbatim>\<open>previousCenter[1]\<close> here: a candidate with the coordinates
  of \<^verbatim>\<open>center[1]\<close> has the computed distance of \<^verbatim>\<open>center[1]\<close>, and a tie goes to the earlier
  index. This holds for every floating-point arithmetic.
\<close>

theorem centroidTracking_swap_by_coordinates:
  assumes "2 \<le> length cen" and "2 \<le> length prev"
    and "nearest_computed (map (computed_distance fp (prev ! 0)) [cen ! 0, cen ! 1, prev ! 1])
           = Some n"
    and "[cen ! 0, cen ! 1, prev ! 1] ! n = cen ! 1"
  shows "centroidTracking fp cA cB cen prev = Inr (cB, cA, [cen ! 1, cen ! 0]) \<and>
         (cen ! 0 = cen ! 1 \<longrightarrow> n = 0) \<and> n \<noteq> 2"
proof -
  from assms(1) obtain c0 c1 cs where c: "cen = c0 # c1 # cs" by (rule two_entries)
  from assms(2) obtain p0 p1 ps where p: "prev = p0 # p1 # ps" by (rule two_entries)
  let ?d0 = "computed_distance fp p0 c0" and ?d1 = "computed_distance fp p0 c1"
    and ?d2 = "computed_distance fp p0 p1"
  from assms(3) have n: "nearest_computed [?d0, ?d1, ?d2] = Some n"
    by (simp add: c p)
  from assms(4) have at_n: "[c0, c1, p1] ! n = c1"
    by (simp add: c p)
  from n have "selected_coordinates ?d0 ?d1 ?d2 c0 c1 p1 = [c0, c1, p1] ! n"
    by (rule selected_is_nearest)
  with at_n have swap: "centroidTracking fp cA cB cen prev = Inr (cB, cA, [cen ! 1, cen ! 0])"
    by (simp add: c p centroidTracking_cons)
  have not2: "n \<noteq> 2"
  proof
    assume "n = 2"
    with at_n have "p1 = c1" by simp
    moreover from \<open>n = 2\<close> n have "float_less ?d2 ?d1"
      by (auto simp add: nearest_computed3 split: if_splits)
    ultimately show False
      using float_less_irrefl by auto
  qed
  have first: "cen ! 0 = cen ! 1 \<longrightarrow> n = 0"
  proof
    assume "cen ! 0 = cen ! 1"
    then have "c0 = c1" by (simp add: c)
    with n not2 show "n = 0"
      using float_less_irrefl by (auto simp add: nearest_computed3 split: if_splits)
  qed
  from swap first not2 show ?thesis by blast
qed

theorem centroidTracking_swap_by_coordinates_witness:
  "2 \<le> length [(3, 4), (3, 4) :: point] \<and> 2 \<le> length [(0, 0), (5, 12) :: point] \<and>
   nearest_computed (map (computed_distance (numpy_ops binary32) (0, 0))
                         [(3, 4), (3, 4), (5, 12)]) = Some 0 \<and>
   centroidTracking (numpy_ops binary32) [(0, 0)] [(2, 2)] [(3, 4), (3, 4)] [(0, 0), (5, 12)]
     = Inr ([(2, 2)], [(0, 0)], [(3, 4), (3, 4)]) \<and>
   nearest_computed (map (computed_distance (numpy_ops binary32) (0, 0))
                         [(6, 8), (3, 4), (3, 4)]) = Some 1 \<and>
   centroidTracking (numpy_ops binary32) [(9, 9)] [(1, 0)] [(6, 8), (3, 4)] [(0, 0), (3, 4)]
     = Inr ([(1, 0)], [(9, 9)], [(3, 4), (6, 8)])"
proof -
  have a: "nearest_computed (map (computed_distance (numpy_ops binary32) (0, 0))
                                 [(3, 4), (3, 4), (5, 12)]) = Some 0"
    by (simp add: nearest_computed3 numpy_distances float_less_simps)
  have b: "nearest_computed (map (computed_distance (numpy_ops binary32) (0, 0))
                                 [(6, 8), (3, 4), (3, 4)]) = Some 1"
    by (simp add: nearest_computed3 numpy_distances float_less_simps)
  have "centroidTracking (numpy_ops binary32) [(0, 0)] [(2, 2)] [(3, 4), (3, 4)] [(0, 0), (5, 12)]
          = Inr ([(2, 2)], [(0, 0)], [[(3, 4), (3, 4)] ! 1, [(3, 4), (3, 4)] ! 0]) \<and>
        ([(3, 4), (3, 4) :: point] ! 0 = [(3, 4), (3, 4)] ! 1 \<longrightarrow> (0 :: nat) = 0) \<and>
        (0 :: nat) \<noteq> 2"
    by (rule centroidTracking_swap_by_coordinates [where n = 0]) (use a in simp_all)
  moreover
  have "centroidTracking (numpy_ops binary32) [(9, 9)] [(1, 0)] [(6, 8), (3, 4)] [(0, 0), (3, 4)]
          = Inr ([(1, 0)], [(9, 9)], [[(6, 8), (3, 4)] ! 1, [(6, 8), (3, 4)] ! 0]) \<and>
        ([(6, 8), (3, 4) :: point] ! 0 = [(6, 8), (3, 4)] ! 1 \<longrightarrow> (1 :: nat) = 0) \<and>
        (1 :: nat) \<noteq> 2"
    by (rule centroidTracking_swap_by_coordinates [where n = 1]) (use b in simp_all)
  ultimately show ?thesis using a b by simp
qed

subsection \<open>previousCenter is only read\<close>

text \<open>
  Claim C10. For every input, also one on which line 162 raises, the frame centroidTracking
  ends with holds under \<^verbatim>\<open>previousCenter\<close> the list it was called with: no statement of
  the body, the loop included, writes to it. The centers it returns are in \<^verbatim>\<open>center\<close>;
  carrying them into the next frame is left to the caller.
\<close>

theorem centroidTracking_keeps_previousCenter:
  "previousCenter (snd (centroidTracking_run fp cA cB cen prev)) = prev"
proof (cases "length cen < 2 \<or> length prev < 2")
  case True
  then show ?thesis
    by (simp add: centroidTracking_run_def Let_def)
next
  case False
  let ?s1 = "\<lparr>clusterA = cA, clusterB = cB, center = cen, previousCenter = prev,
               comparisonCenterCoordinates = [cen ! 0, cen ! 1, prev ! 1], minDistance = None,
               distanceListCenter = [], minCoordinatesCenter = (0, 0)\<rparr>"
  have "previousCenter (foldl (tracking_step fp) ?s1 [cen ! 0, cen ! 1, prev ! 1]) = prev"
    by (simp only: tracking_loop_keeps_previousCenter tracking_vars.simps)
  with False show ?thesis
    by (simp add: centroidTracking_run_def Let_def)
qed

theorem centroidTracking_keeps_previousCenter_witness:
  "previousCenter (snd (centroidTracking_run (numpy_ops binary32)
       [(9, 9)] [(1, 0)] [(6, 8), (3, 4)] [(0, 0), (5, 12)])) = [(0, 0), (5, 12)] \<and>
   centroidTracking (numpy_ops binary32) [(9, 9)] [(1, 0)] [(6, 8), (3, 4)] [(0, 0), (5, 12)]
     = Inr ([(1, 0)], [(9, 9)], [(3, 4), (6, 8)])"
proof -
  have "centroidTracking (numpy_ops binary32) [(9, 9)] [(1, 0)] [(6, 8), (3, 4)] [(0, 0), (5, 12)]
     = Inr ([(1, 0)], [(9, 9)], [(3, 4), (6, 8)])"
    by (simp add: centroidTracking_cons selected_coordinates_def numpy_distances
          float_less_simps)
  with centroidTracking_keeps_previousCenter
         [of "numpy_ops binary32" "[(9, 9)]" "[(1, 0)]" "[(6, 8), (3, 4)]" "[(0, 0), (5, 12)]"]
  show ?thesis by (rule conjI)
qed

section \<open>Properties of contourClustering and clusterParams\<close>

subsection \<open>What is handed to k-means\<close>

lemma append_points_upto:
  "n \<le> length i \<Longrightarrow> foldl (\<lambda>acc j. acc @ [i ! j]) acc [0..<n] = acc @ take n i"
  by (induction n) (simp_all add: take_Suc_conv_app_nth)

lemma append_contours:
  "foldl (\<lambda>acc i. foldl (\<lambda>acc j. acc @ [i ! j]) acc [0..<length i]) acc contours
     = acc @ concat contours"
  by (induction contours arbitrary: acc) (simp_all add: append_points_upto)

text \<open>The loops of lines 137 to 140 flatten the contours, in order.\<close>

lemma contour_points_concat: "contour_points contours = concat contours"
  by (simp add: contour_points_def append_contours)

lemma length_np_float32: "length (np_float32 ps) = length ps"
  by (simp add: np_float32_def)

text \<open>There is one call of \<^verbatim>\<open>cv2.kmeans\<close>, on every point of every contour.\<close>

lemma kmeans_calls:
  "fst (contourClustering cv contours crit clusterNumber multiTouch) =
     [\<lparr>km_data = np_float32 (concat contours), km_K = clusterNumber, km_bestLabels = None,
       km_criteria = crit, km_attempts = 10, km_flags = KMEANS_RANDOM_CENTERS\<rparr>]"
  by (simp add: contourClustering_def Let_def contour_points_concat)

text \<open>The mask of line 145 keeps the rows of one label, in order, and needs a label per row.\<close>

lemma rows_labelled_example:
  "rows_labelled [(0, 0), (4, 0), (9, 9)] [0, 1, 0] 0 = Inr [(0, 0), (9, 9)]"
  "rows_labelled [(0, 0), (4, 0), (9, 9)] [0, 1, 0] 1 = Inr [(4, 0)]"
  "rows_labelled [(7, 7)] [0, 1] 0 = Inl IndexError"
  by (simp_all add: rows_labelled_def)

text \<open>
  Claim C3: the code does not keep it. Line 30 sets the budget, \<^verbatim>\<open>numRandomContours\<close>, at
  500 and describes it as the number of contour points to draw, but contourClustering
  does not read it and draws no sample. One contour of the 501 points \<open>(0, 0)\<close>,
  \<open>(1, 0)\<close>, up to \<open>(500, 0)\<close>, more than the budget, reaches \<^verbatim>\<open>cv2.kmeans\<close> with all its
  501 points.
\<close>

theorem contourClustering_exceeds_budget:
  "0 < numRandomContours \<and>
   numRandomContours < length (concat [map (\<lambda>k. (int k, 0)) [0..<501]]) \<and>
   map (\<lambda>a. length (km_data a))
     (fst (contourClustering cv2_stub [map (\<lambda>k. (int k, 0)) [0..<501]] (3, 10, 1) 2 True))
     = [501] \<and>
   \<not> 501 \<le> numRandomContours"
  by (simp add: kmeans_calls length_np_float32 numRandomContours_def)

subsection \<open>No activity gate\<close>

text \<open>
  Claim C4: the code does not keep it. Line 29 sets the gate, \<^verbatim>\<open>contourDetectionPoints\<close>,
  at 650 and describes it as the number of contour points needed to detect motion, but
  contourClustering does not read it and has no no-motion outcome. Two contours of three
  points in all, far fewer than the gate, are not withheld: \<^verbatim>\<open>cv2.kmeans\<close> is called on
  the three points.
\<close>

theorem contourClustering_clusters_below_gate:
  "length (concat [[(0, 0), (4, 0)], [(9, 9)] :: contour]) < contourDetectionPoints \<and>
   fst (contourClustering cv2_stub [[(0, 0), (4, 0)], [(9, 9)]] (3, 10, 1) 1 False) =
     [\<lparr>km_data = [(0, 0), (4, 0), (9, 9)], km_K = 1, km_bestLabels = None,
       km_criteria = (3, 10, 1), km_attempts = 10, km_flags = 0\<rparr>]"
  by (simp add: kmeans_calls np_float32_def round_to_binary32_numeral
        contourDetectionPoints_def KMEANS_RANDOM_CENTERS_def)

subsection \<open>Single touch\<close>

text \<open>
  Claim C8. With multi-touch disabled, whatever contourClustering returns has an empty
  cluster B, for every contour set (and every cluster count and clusterer); and
  clusterParams returns the cluster count 1, against 2 with multi-touch enabled.
\<close>

theorem single_touch_clusterB_empty:
  "(snd (contourClustering cv contours crit clusterNumber False) = Inr (cA, cB, cen, ret)
      \<longrightarrow> cB = []) \<and>
   fst (snd (clusterParams False)) = 1 \<and> fst (snd (clusterParams True)) = 2"
  by (auto simp add: contourClustering_def clusterParams_def Let_def
        split: sum.splits prod.splits)

theorem single_touch_clusterB_empty_witness:
  "snd (contourClustering cv2_stub [[(0, 0), (4, 0)], [(9, 9)]] (3, 10, 1) 1 False)
     = Inr ([(0, 0), (4, 0), (9, 9)], [], [(0, 0)], 0) \<and>
   fst (snd (clusterParams False)) = 1 \<and> fst (snd (clusterParams True)) = 2"
proof -
  have run: "snd (contourClustering cv2_stub [[(0, 0), (4, 0)], [(9, 9)]] (3, 10, 1) 1 False)
     = Inr ([(0, 0), (4, 0), (9, 9)], [], [(0, 0)], 0)"
    by (simp add: contourClustering_def Let_def contour_points_concat np_float32_def
          round_to_binary32_numeral cv2_stub_def rows_labelled_def)
  from single_touch_clusterB_empty
         [of cv2_stub "[[(0, 0), (4, 0)], [(9, 9)]]" "(3, 10, 1)" 1
             "[(0, 0), (4, 0), (9, 9)]" "[]" "[(0, 0)]" 0] run
  show ?thesis by simp
qed

section \<open>Properties of imageProcessing\<close>

subsection \<open>The delta of two frames\<close>

lemma uint_absdiff_pixel: "uint (absdiff_pixel a b) = \<bar>uint a - uint b\<bar>"
proof (cases "a \<le> b")
  case True
  then have "uint (b - a) = uint b - uint a"
    by (simp add: word_le_def uint_sub_lem [symmetric])
  with True show ?thesis
    by (simp add: absdiff_pixel_def word_le_def)
next
  case False
  then have "uint b \<le> uint a"
    by (simp add: word_le_def)
  then have "uint (a - b) = uint a - uint b"
    by (simp add: uint_sub_lem [symmetric])
  with False show ?thesis
    by (simp add: absdiff_pixel_def word_le_def)
qed

lemma absdiff_rows:
  assumes "absdiff src1 src2 = Inr d"
  shows "map length d = map length src1"
    and "r < length src1 \<Longrightarrow> c < length (src1 ! r) \<Longrightarrow>
           d ! r ! c = absdiff_pixel (src1 ! r ! c) (src2 ! r ! c)"
proof -
  from assms have shape: "map length src1 = map length src2"
    and d: "d = map2 (map2 absdiff_pixel) src1 src2"
    by (auto simp add: absdiff_def split: if_splits)
  from shape have len: "length src1 = length src2"
    by (metis length_map)
  have rows: "length (src1 ! k) = length (src2 ! k)" if "k < length src1" for k
    using shape that len by (metis nth_map)
  show "map length d = map length src1"
    unfolding d using len rows by (auto simp add: list_eq_iff_nth_eq)
  show "d ! r ! c = absdiff_pixel (src1 ! r ! c) (src2 ! r ! c)"
    if "r < length src1" "c < length (src1 ! r)"
    unfolding d using that len rows [of r] by simp
qed

subsection \<open>Warm-up\<close>

text \<open>
  Claim C5. When the grab succeeds with the raw frame \<open>f0\<close> and there is no reference yet
  (\<^verbatim>\<open>master is None\<close>), imageProcessing returns the gray and blurred frame as the new
  reference together with the status \<^verbatim>\<open>'continue'\<close>, and \<^verbatim>\<open>None\<close> for the contours, the
  hierarchy and the frames: no delta is computed.
\<close>

theorem imageProcessing_warm_up:
  assumes "camera_read cam = (Some f0, cam')"
  shows "imageProcessing cv cam None =
     (Inr (Some (GaussianBlur cv (cvtColor_BGR2GRAY cv f0) gaussianBlurKSize 0),
           None, None, None, ''continue''), cam')"
  using assms by (simp add: imageProcessing_def Let_def)

theorem imageProcessing_warm_up_witness:
  "camera_read [Some [[(1, 9, 3), (4, 2, 6)]]] = (Some [[(1, 9, 3), (4, 2, 6)]], []) \<and>
   imageProcessing cv2_stub [Some [[(1, 9, 3), (4, 2, 6)]]] None =
     (Inr (Some [[9, 2]], None, None, None, ''continue''), [])"
proof -
  have rd: "camera_read [Some [[(1, 9, 3), (4, 2, 6)]]] = (Some [[(1, 9, 3), (4, 2, 6)]], [])"
    by (simp add: camera_read_def)
  from imageProcessing_warm_up [OF rd, of cv2_stub] rd show ?thesis
    by (simp add: cv2_stub_def)
qed

subsection \<open>Delta and reference of a processed frame\<close>

text \<open>
  Claim C6. Whenever imageProcessing, called with the reference \<open>m\<close>, returns a processed
  frame (its list of frames is present), then: the reference it returns is the smoothed
  current frame, \<^verbatim>\<open>frame2\<close>, the blur of the gray version of the frame that was grabbed;
  and the delta, \<^verbatim>\<open>frame3\<close>, is \<^verbatim>\<open>cv2.absdiff\<close> of the incoming reference and \<^verbatim>\<open>frame2\<close>,
  of the shape of the reference and at every pixel the absolute difference of the two
  pixel values.
\<close>

theorem imageProcessing_delta_and_reference:
  assumes "imageProcessing cv cam (Some m) =
             (Inr (master', contours, hier, Some fr, status), cam')"
  shows "master' = Some (frame2 fr) \<and>
         camera_read cam = (Some (frame0 fr), cam') \<and>
         frame2 fr = GaussianBlur cv (cvtColor_BGR2GRAY cv (frame0 fr)) gaussianBlurKSize 0 \<and>
         absdiff m (frame2 fr) = Inr (frame3 fr) \<and>
         map length (frame3 fr) = map length m \<and>
         (\<forall>r < length m. \<forall>c < length (m ! r).
            uint (frame3 fr ! r ! c) = \<bar>uint (m ! r ! c) - uint (frame2 fr ! r ! c)\<bar>)"
proof -
  from assms obtain f0 where rd: "camera_read cam = (Some f0, cam')"
    by (auto simp add: imageProcessing_def Let_def split: prod.splits option.splits sum.splits)
  let ?f2 = "GaussianBlur cv (cvtColor_BGR2GRAY cv f0) gaussianBlurKSize 0"
  from assms rd obtain f3 where ad: "absdiff m ?f2 = Inr f3"
    by (auto simp add: imageProcessing_def Let_def split: prod.splits sum.splits)
  from assms rd ad have fr: "frame0 fr = f0" "frame2 fr = ?f2" "frame3 fr = f3"
    and ms: "master' = Some ?f2"
    by (auto simp add: imageProcessing_def Let_def split: prod.splits)
  from absdiff_rows [OF ad] uint_absdiff_pixel fr ms rd ad show ?thesis
    by simp
qed

theorem imageProcessing_delta_and_reference_witness:
  "imageProcessing cv2_stub [Some [[(1, 9, 3), (4, 2, 6)]]] (Some [[5, 7]]) =
     (Inr (Some [[9, 2]], Some [[(0, 0)]], Some [(-1, -1, -1, -1)],
           Some \<lparr>frame0 = [[(1, 9, 3), (4, 2, 6)]], frame1 = [[9, 2]], frame2 = [[9, 2]],
                 frame3 = [[4, 5]], frame4 = [[0, 0]], frame5 = [[0, 0]]\<rparr>,
           ''None''), []) \<and>
   uint (4 :: 8 word) = \<bar>uint (5 :: 8 word) - uint (9 :: 8 word)\<bar> \<and>
   uint (5 :: 8 word) = \<bar>uint (7 :: 8 word) - uint (2 :: 8 word)\<bar>"
proof -
  let ?fr = "\<lparr>frame0 = [[(1, 9, 3), (4, 2, 6)]], frame1 = [[9, 2]], frame2 = [[9, 2]],
              frame3 = [[4, 5]], frame4 = [[0, 0]], frame5 = [[0, 0]]\<rparr>"
  have run: "imageProcessing cv2_stub [Some [[(1, 9, 3), (4, 2, 6)]]] (Some [[5, 7]]) =
     (Inr (Some [[9, 2]], Some [[(0, 0)]], Some [(-1, -1, -1, -1)], Some ?fr, ''None''), [])"
    by (simp add: imageProcessing_def camera_read_def cv2_stub_def absdiff_def
          absdiff_pixel_def thresholdValue_def thresholdMaxValue_def Let_def)
  from imageProcessing_delta_and_reference [OF run]
  have px: "\<forall>r < length [[5, 7 :: 8 word]]. \<forall>c < length ([[5, 7 :: 8 word]] ! r).
      uint (frame3 ?fr ! r ! c) = \<bar>uint ([[5, 7 :: 8 word]] ! r ! c) - uint (frame2 ?fr ! r ! c)\<bar>"
    by blast
  from px have "uint (frame3 ?fr ! 0 ! 0) = \<bar>uint ([[5, 7 :: 8 word]] ! 0 ! 0) - uint (frame2 ?fr ! 0 ! 0)\<bar>"
    by simp
  moreover from px have "uint (frame3 ?fr ! 0 ! 1) = \<bar>uint ([[5, 7 :: 8 word]] ! 0 ! 1) - uint (frame2 ?fr ! 0 ! 1)\<bar>"
    by simp
  ultimately show ?thesis using run by simp
qed

subsection \<open>End of the feed\<close>

text \<open>
  Claim C7. When the grab fails, imageProcessing returns the status \<^verbatim>\<open>'break'\<close> and
  \<^verbatim>\<open>None\<close> in every other place of its result, whatever reference it was called with and
  whatever the primitives would compute: the reference is not read, none is handed back,
  and no delta, mask or contours are produced.
\<close>

theorem imageProcessing_end_of_feed:
  assumes "camera_read cam = (None, cam')"
  shows "imageProcessing cv cam master = (Inr (None, None, None, None, ''break''), cam')"
  using assms by (simp add: imageProcessing_def)

theorem imageProcessing_end_of_feed_witness:
  "camera_read [None, Some [[(1, 9, 3)]]] = (None, [Some [[(1, 9, 3)]]]) \<and>
   imageProcessing cv2_stub [None, Some [[(1, 9, 3)]]] (Some [[5]]) =
     (Inr (None, None, None, None, ''break''), [Some [[(1, 9, 3)]]]) \<and>
   camera_read [] = (None, []) \<and>
   imageProcessing cv2_stub [] None = (Inr (None, None, None, None, ''break''), [])"
proof -
  have rd: "camera_read [None, Some [[(1, 9, 3)]]] = (None, [Some [[(1, 9, 3)]]])"
    and rd': "camera_read [] = (None, [])"
    by (simp_all add: camera_read_def)
  from imageProcessing_end_of_feed [OF rd, of cv2_stub "Some [[5]]"]
    imageProcessing_end_of_feed [OF rd', of cv2_stub None] rd rd'
  show ?thesis by simp
qed

end
